theory Spec2Isabelle
  imports Main "HOL-Library.Word" "HOL-Library.Char_ord" "HOL-Library.List_Lexorder"
begin

section \<open>The embedded key-value store (github.com/boltdb/bolt)\<close>

text \<open>
  A Go \<^verbatim>\<open>string\<close> and a \<^verbatim>\<open>[]byte\<close> are both byte sequences, and the conversions
  \<^verbatim>\<open>[]byte(s)\<close> and \<^verbatim>\<open>string(b)\<close> copy the bytes unchanged, so both are \<open>string\<close>
  (a \<open>char list\<close>, one \<open>char\<close> per byte) here.

  A bucket is a B+tree: at most one value per key, iterated in ascending byte order of
  the keys. It is an association list; \<open>kv_put\<close> drops every entry of the key and inserts
  the new one at its place in the key order (the order of \<open>HOL-Library.List_Lexorder\<close>
  over \<open>HOL-Library.Char_ord\<close>, which is the order of \<^verbatim>\<open>bytes.Compare\<close>). The database
  file is the root bucket: it maps bucket names to buckets.
\<close>

type_synonym bytes = string
type_synonym bucket = "(bytes \<times> bytes) list"
type_synonym db = "(bytes \<times> bucket) list"

definition kv_delete :: "'k \<Rightarrow> ('k \<times> 'v) list \<Rightarrow> ('k \<times> 'v) list" where
  "kv_delete k kvs = filter (\<lambda>e. fst e \<noteq> k) kvs"

definition kv_put :: "'k::linorder \<Rightarrow> 'v \<Rightarrow> ('k \<times> 'v) list \<Rightarrow> ('k \<times> 'v) list" where
  "kv_put k v kvs = insort_key fst (k, v) (kv_delete k kvs)"

datatype bolt_error = ErrBucketNameRequired | ErrKeyRequired | ErrKeyTooLarge | ErrValueTooLarge

text \<open>\<^verbatim>\<open>len\<close> of a Go slice or string is an \<^verbatim>\<open>int\<close>.\<close>

definition len :: "'a list \<Rightarrow> int" where
  "len xs = int (length xs)"

definition MaxKeySize :: int where
  "MaxKeySize = 32768"

definition MaxValueSize :: int where
  "MaxValueSize = 2147483646"

text \<open>\<^verbatim>\<open>tx.Bucket(name)\<close>: the bucket, or nil when it was never created.\<close>

definition Bucket :: "db \<Rightarrow> bytes \<Rightarrow> bucket option" where
  "Bucket tx name = map_of tx name"

text \<open>
  \<^verbatim>\<open>tx.CreateBucketIfNotExists(name)\<close>: the transaction with the bucket in it, and the
  bucket. The only failure a writable transaction has at the root is an empty name.
\<close>

definition CreateBucketIfNotExists :: "db \<Rightarrow> bytes \<Rightarrow> bolt_error + db \<times> bucket" where
  "CreateBucketIfNotExists tx name =
     (if name = [] then Inl ErrBucketNameRequired
      else case map_of tx name of
             Some b \<Rightarrow> Inr (tx, b)
           | None \<Rightarrow> Inr (kv_put name [] tx, []))"

text \<open>\<^verbatim>\<open>b.Get(key)\<close>: nil when the key is absent.\<close>

definition Get :: "bucket \<Rightarrow> bytes \<Rightarrow> bytes option" where
  "Get b key = map_of b key"

text \<open>\<^verbatim>\<open>b.Put(key, value)\<close> checks the sizes of key and value, then writes.\<close>

definition Put :: "bucket \<Rightarrow> bytes \<Rightarrow> bytes \<Rightarrow> bolt_error + bucket" where
  "Put b key val =
     (if len key = 0 then Inl ErrKeyRequired
      else if len key > MaxKeySize then Inl ErrKeyTooLarge
      else if len val > MaxValueSize then Inl ErrValueTooLarge
      else Inr (kv_put key val b))"

text \<open>
  \<^verbatim>\<open>b.Delete(key)\<close>: removing an absent key is not an error. (Its failures are a read-only
  transaction and a key that names a nested bucket; neither exists here.)
\<close>

definition Delete :: "bucket \<Rightarrow> bytes \<Rightarrow> bolt_error + bucket" where
  "Delete b key = Inr (kv_delete key b)"

text \<open>
  A \<^verbatim>\<open>*bolt.Bucket\<close> is a handle into the transaction: a write through it is a write to
  the transaction. The model writes the changed bucket back under its name.
\<close>

definition store_bucket :: "db \<Rightarrow> bytes \<Rightarrow> bucket \<Rightarrow> db" where
  "store_bucket tx name b = kv_put name b tx"

section \<open>Agreements, errors, log output\<close>

record Agreement =
  CurrentAgreementId :: string
  AgreementProtocol :: string
  AgreementInceptionTime :: "64 word"
  AgreementCreationTime :: "64 word"
  Proposal :: string
  DataVerificationURL :: string
  DisableDataVerificationChecks :: bool

text \<open>
  The source builds its errors with \<^verbatim>\<open>errors.New\<close> and \<^verbatim>\<open>fmt.Errorf\<close>; there is one
  constructor per message, carrying the values the message prints.
  \<^item> \<open>IllegalInput\<close>: "Illegal input: agreement id or agreement protocol is empty"
  \<^item> \<open>MissingArgs\<close>: "Missing required args, pk and/or bucket"
  \<^item> \<open>MissingPk\<close>: "Missing required arg pk"
  \<^item> \<open>AlreadyContains bucket pk\<close>: "Bucket \%v already contains record with primary key: \%v"
  \<^item> \<open>UnableToSerialize\<close>: "Unable to serialize record \%v. Error: \%v"
  \<^item> \<open>UnableToWrite bucket pk\<close>: "Unable to write to record to bucket \%v. Primary key of record: \%v"
  \<^item> \<open>ExpectedOnlyOne id found\<close>: "Expected only one record for agreementid: \%v, but retrieved: \%v"
  \<^item> \<open>UnableToLocate id\<close>: "Unable to locate agreement id: \%v"
  \<^item> \<open>NoAgreementToUpdate id\<close>: "No agreement with given id available to update: \%v"
  \<^item> \<open>FailedUnmarshal data\<close>: "Failed to unmarshal agreement DB data: \%v"
  \<^item> \<open>FailedSerialize record\<close>: "Failed to serialize agreement record: \%v"
  \<^item> \<open>FailedWrite id\<close>: "Failed to write record with key: \%v"
  \<^item> \<open>UnknownBucket name\<close>: "Unknown bucket: \%v"
  \<^item> \<open>BoltError e\<close>: an error of the store, returned as it is.
\<close>

datatype error =
    IllegalInput
  | MissingArgs
  | MissingPk
  | AlreadyContains string string
  | UnableToSerialize
  | UnableToWrite string string
  | ExpectedOnlyOne string "Agreement list"
  | UnableToLocate string
  | NoAgreementToUpdate string
  | FailedUnmarshal bytes
  | FailedSerialize Agreement
  | FailedWrite string
  | UnknownBucket string
  | BoltError bolt_error

text \<open>
  What a call that returns a Go \<^verbatim>\<open>error\<close> does: it returns nil (\<open>Ok\<close>), returns an
  error (\<open>Failed\<close>), or does not return because of a run-time panic (\<open>Panicked\<close>).
\<close>

datatype outcome = Ok | Failed error | Panicked

text \<open>
  The lines written with \<^verbatim>\<open>glog.Errorf\<close>, in the order written:
  \<^item> \<open>WarnDeleteMissing pk\<close>: "Warning: record deletion requested, but record does not exist: \%v"
  \<^item> \<open>ErrDeserializeBeforeDelete\<close>: "Error deserializing agreement: \%v. This is a pre-deletion warning ..."
  \<^item> \<open>WarnDeleteActive\<close>: "Warning! Deleting an agreement record with an agreement id, ..."
  \<^item> \<open>ErrDeserializeRecord v\<close>: "Unable to deserialize db record: \%v"

  The trace lines of \<^verbatim>\<open>glog.V(n).Infof\<close> depend on the verbosity flag of the process and
  are not recorded.
\<close>

datatype log_event =
    WarnDeleteMissing string
  | ErrDeserializeBeforeDelete
  | WarnDeleteActive
  | ErrDeserializeRecord bytes

text \<open>
  \<^verbatim>\<open>encoding/json\<close> is a parameter of the model: \<open>Marshal\<close> is \<^verbatim>\<open>json.Marshal\<close> on an
  Agreement (\<open>None\<close> when it returns an error) and \<open>Unmarshal\<close> is \<^verbatim>\<open>json.Unmarshal\<close>
  into a zero Agreement (\<open>None\<close> when it returns an error).
\<close>

record codec =
  Marshal :: "Agreement \<Rightarrow> bytes option"
  Unmarshal :: "bytes \<Rightarrow> Agreement option"

section \<open>Transactions\<close>

text \<open>
  \<^verbatim>\<open>db.Update(fn)\<close> runs \<open>fn\<close> on a writable transaction and commits when \<open>fn\<close> returns
  nil; when \<open>fn\<close> returns an error or panics the transaction is rolled back and the
  database is as it was. Log lines written meanwhile stay written. The database is open
  and its file can be read and written: failures of the disk are not part of the model.
\<close>

definition Update :: "db \<Rightarrow> (db \<Rightarrow> db \<times> log_event list \<times> outcome) \<Rightarrow> db \<times> log_event list \<times> outcome" where
  "Update d fn =
     (case fn d of
        (tx, lg, Ok) \<Rightarrow> (tx, lg, Ok)
      | (tx, lg, r) \<Rightarrow> (d, lg, r))"

text \<open>\<^verbatim>\<open>db.View(fn)\<close> runs \<open>fn\<close> on a read-only transaction and returns its error.\<close>

definition View :: "db \<Rightarrow> (db \<Rightarrow> 'a \<times> error option) \<Rightarrow> 'a \<times> error option" where
  "View d fn = fn d"

section \<open>agreementbot/persistence.go\<close>

definition AGREEMENTS :: string where
  "AGREEMENTS = ''agreements''"

text \<open>
  \<open>now\<close> is the value of \<^verbatim>\<open>time.Now().Unix()\<close> at the call; the conversion
  \<^verbatim>\<open>uint64(...)\<close> wraps modulo \<open>2 ^ 64\<close>, as \<open>word_of_int\<close> does.
\<close>

definition agreement :: "int \<Rightarrow> string \<Rightarrow> string \<Rightarrow> error + Agreement" where
  "agreement now agreementid agreementProto =
     (if agreementid = [] \<or> agreementProto = [] then Inl IllegalInput
      else Inr \<lparr> CurrentAgreementId = agreementid,
                 AgreementProtocol = agreementProto,
                 AgreementInceptionTime = word_of_int now,
                 AgreementCreationTime = 0,
                 Proposal = [],
                 DataVerificationURL = [],
                 DisableDataVerificationChecks = False \<rparr>)"

text \<open>
  \<open>PersistNew\<close> takes any record; \<open>marshal\<close> is \<^verbatim>\<open>json.Marshal\<close> at the record's type.
\<close>

definition PersistNew ::
  "('r \<Rightarrow> bytes option) \<Rightarrow> db \<Rightarrow> string \<Rightarrow> string \<Rightarrow> 'r \<Rightarrow> db \<times> log_event list \<times> outcome" where
  "PersistNew marshal d pk bucket record =
     (if pk = [] \<or> bucket = [] then (d, [], Failed MissingArgs)
      else Update d (\<lambda>tx.
        case CreateBucketIfNotExists tx bucket of
          Inl err \<Rightarrow> (tx, [], Failed (BoltError err))
        | Inr (tx1, b) \<Rightarrow>
            (case Get b pk of
               Some existing \<Rightarrow> (tx1, [], Failed (AlreadyContains bucket pk))
             | None \<Rightarrow>
                 (case marshal record of
                    None \<Rightarrow> (tx1, [], Failed UnableToSerialize)
                  | Some bytes \<Rightarrow>
                      (case Put b pk bytes of
                         Inl err \<Rightarrow> (tx1, [], Failed (UnableToWrite bucket pk))
                       | Inr b' \<Rightarrow> (store_bucket tx1 bucket b', [], Ok))))))"

definition AgreementAttempt ::
  "codec \<Rightarrow> int \<Rightarrow> db \<Rightarrow> string \<Rightarrow> string \<Rightarrow> db \<times> log_event list \<times> outcome" where
  "AgreementAttempt c now d agreementid agreementProto =
     (case agreement now agreementid agreementProto of
        Inl err \<Rightarrow> (d, [], Failed err)
      | Inr a \<Rightarrow>
          (case PersistNew (Marshal c) d (CurrentAgreementId a) AGREEMENTS a of
             (d', lg, Ok) \<Rightarrow> (d', lg, Ok)
           | (d', lg, r) \<Rightarrow> (d', lg, r)))"

type_synonym AFilter = "Agreement \<Rightarrow> bool"

definition IdAFilter :: "string \<Rightarrow> AFilter" where
  "IdAFilter ident = (\<lambda>a. CurrentAgreementId a = ident)"

text \<open>
  The loop over the filters in \<open>FindAgreements\<close>: it visits every filter and raises the
  flag \<open>exclude\<close> when one rejects the record.
\<close>

fun run_filters :: "AFilter list \<Rightarrow> Agreement \<Rightarrow> bool \<Rightarrow> bool" where
  "run_filters [] a exclude = exclude"
| "run_filters (filterFn # filters) a exclude =
     run_filters filters a (if \<not> filterFn a then True else exclude)"

text \<open>
  The function given to \<^verbatim>\<open>b.ForEach\<close>, on the slice \<open>agreements\<close> and the log so far.
  It returns nil for every entry, so the iteration visits them all.
\<close>

definition visit ::
  "codec \<Rightarrow> AFilter list \<Rightarrow> Agreement list \<times> log_event list \<Rightarrow> bytes \<times> bytes
     \<Rightarrow> Agreement list \<times> log_event list" where
  "visit c filters acc kv =
     (case acc of (agreements, lg) \<Rightarrow>
        (case Unmarshal c (snd kv) of
           None \<Rightarrow> (agreements, lg @ [ErrDeserializeRecord (snd kv)])
         | Some a \<Rightarrow>
             if \<not> run_filters filters a False then (agreements @ [a], lg)
             else (agreements, lg)))"

definition ForEach :: "bucket \<Rightarrow> ('s \<Rightarrow> bytes \<times> bytes \<Rightarrow> 's) \<Rightarrow> 's \<Rightarrow> 's" where
  "ForEach b fn s = foldl fn s b"

definition FindAgreements ::
  "codec \<Rightarrow> db \<Rightarrow> AFilter list \<Rightarrow> log_event list \<times> (error + Agreement list)" where
  "FindAgreements c d filters =
     (case View d (\<lambda>tx.
             ((case Bucket tx AGREEMENTS of
                 Some b \<Rightarrow> ForEach b (visit c filters) ([], [])
               | None \<Rightarrow> ([], [])), None)) of
        ((agreements, lg), Some readErr) \<Rightarrow> (lg, Inl readErr)
      | ((agreements, lg), None) \<Rightarrow> (lg, Inr agreements))"

definition FindSingleAgreementByAgreementId ::
  "codec \<Rightarrow> db \<Rightarrow> string \<Rightarrow> log_event list \<times> (error + Agreement option)" where
  "FindSingleAgreementByAgreementId c d agreementid =
     (let filters = [] @ [IdAFilter agreementid] in
      case FindAgreements c d filters of
        (lg, Inl err) \<Rightarrow> (lg, Inl err)
      | (lg, Inr agreements) \<Rightarrow>
          if len agreements > 1 then (lg, Inl (ExpectedOnlyOne agreementid agreements))
          else if len agreements = 0 then (lg, Inr None)
          else (lg, Inr (Some (agreements ! 0))))"

text \<open>
  \<open>update\<close> is a \<^verbatim>\<open>*Agreement\<close>: \<open>None\<close> is the nil pointer, and reading a field through
  it panics.
\<close>

text \<open>
  The four assignments of \<open>persistUpdatedAgreement\<close> ("write updates only to the fields
  we expect should be updateable"): \<open>mod0\<close> is the record decoded from the store, \<open>upd\<close>
  the caller's record.
\<close>

definition replace_members :: "Agreement \<Rightarrow> Agreement \<Rightarrow> Agreement" where
  "replace_members mod0 upd =
     mod0\<lparr> AgreementCreationTime := AgreementCreationTime upd,
           Proposal := Proposal upd,
           DataVerificationURL := DataVerificationURL upd,
           DisableDataVerificationChecks := DisableDataVerificationChecks upd \<rparr>"

definition persistUpdatedAgreement ::
  "codec \<Rightarrow> db \<Rightarrow> string \<Rightarrow> Agreement option \<Rightarrow> db \<times> log_event list \<times> outcome" where
  "persistUpdatedAgreement c d agreementid update =
     Update d (\<lambda>tx.
       case CreateBucketIfNotExists tx AGREEMENTS of
         Inl err \<Rightarrow> (tx, [], Failed (BoltError err))
       | Inr (tx1, b) \<Rightarrow>
           (case Get b agreementid of
              None \<Rightarrow> (tx1, [], Failed (NoAgreementToUpdate agreementid))
            | Some current \<Rightarrow>
                (case Unmarshal c current of
                   None \<Rightarrow> (tx1, [], Failed (FailedUnmarshal current))
                 | Some mod0 \<Rightarrow>
                     (case update of
                        None \<Rightarrow> (tx1, [], Panicked)
                      | Some upd \<Rightarrow>
                          (let mod1 = replace_members mod0 upd
                           in case Marshal c mod1 of
                                None \<Rightarrow> (tx1, [], Failed (FailedSerialize mod1))
                              | Some serialized \<Rightarrow>
                                  (case Put b agreementid serialized of
                                     Inl err \<Rightarrow> (tx1, [], Failed (FailedWrite agreementid))
                                   | Inr b' \<Rightarrow> (store_bucket tx1 AGREEMENTS b', [], Ok)))))))"

text \<open>
  The result is the pair the Go function returns, a \<^verbatim>\<open>*Agreement\<close> and an error, with
  the database and the log after the call.
\<close>

definition singleAgreementUpdate ::
  "codec \<Rightarrow> db \<Rightarrow> string \<Rightarrow> (Agreement \<Rightarrow> Agreement option)
     \<Rightarrow> db \<times> log_event list \<times> Agreement option \<times> outcome" where
  "singleAgreementUpdate c d agreementid fn =
     (case FindSingleAgreementByAgreementId c d agreementid of
        (lg, Inl err) \<Rightarrow> (d, lg, None, Failed err)
      | (lg, Inr None) \<Rightarrow> (d, lg, None, Failed (UnableToLocate agreementid))
      | (lg, Inr (Some a)) \<Rightarrow>
          (let updated = fn a in
           case persistUpdatedAgreement c d agreementid updated of
             (d', lg', r) \<Rightarrow> (d', lg @ lg', updated, r)))"

definition AgreementMade ::
  "codec \<Rightarrow> int \<Rightarrow> db \<Rightarrow> string \<Rightarrow> string \<Rightarrow> string \<Rightarrow> bool
     \<Rightarrow> db \<times> log_event list \<times> Agreement option \<times> outcome" where
  "AgreementMade c now d agreementid proposal url checks =
     (case singleAgreementUpdate c d agreementid
             (\<lambda>a. Some (a\<lparr> AgreementCreationTime := word_of_int now,
                            Proposal := proposal,
                            DataVerificationURL := url,
                            DisableDataVerificationChecks := checks \<rparr>)) of
        (d', lg, a, Ok) \<Rightarrow> (d', lg, a, Ok)
      | (d', lg, a, r) \<Rightarrow> (d', lg, None, r))"

definition AgreementUpdate ::
  "codec \<Rightarrow> int \<Rightarrow> db \<Rightarrow> string \<Rightarrow> string \<Rightarrow> string \<Rightarrow> bool
     \<Rightarrow> db \<times> log_event list \<times> Agreement option \<times> outcome" where
  "AgreementUpdate c now d agreementid proposal url checks =
     AgreementMade c now d agreementid proposal url checks"

definition DeleteAgreement :: "codec \<Rightarrow> db \<Rightarrow> string \<Rightarrow> db \<times> log_event list \<times> outcome" where
  "DeleteAgreement c d pk =
     (if pk = [] then (d, [], Failed MissingPk)
      else Update d (\<lambda>tx.
        case Bucket tx AGREEMENTS of
          None \<Rightarrow> (tx, [], Failed (UnknownBucket AGREEMENTS))
        | Some b \<Rightarrow>
            (case Get b pk of
               None \<Rightarrow> (tx, [WarnDeleteMissing pk], Ok)
             | Some existing \<Rightarrow>
                 (let lg = (case Unmarshal c existing of
                              None \<Rightarrow> [ErrDeserializeBeforeDelete]
                            | Some record \<Rightarrow>
                                if CurrentAgreementId record \<noteq> [] then [WarnDeleteActive] else [])
                  in case Delete b pk of
                       Inl err \<Rightarrow> (tx, lg, Failed (BoltError err))
                     | Inr b' \<Rightarrow> (store_bucket tx AGREEMENTS b', lg, Ok)))))"

section \<open>What is in the store\<close>

text \<open>The bytes stored under a key of the agreements bucket.\<close>

definition raw_value :: "db \<Rightarrow> bytes \<Rightarrow> bytes option" where
  "raw_value d k = (case Bucket d AGREEMENTS of None \<Rightarrow> None | Some b \<Rightarrow> Get b k)"

text \<open>The record stored under a key: its bytes, decoded.\<close>

definition stored_agreement :: "codec \<Rightarrow> db \<Rightarrow> bytes \<Rightarrow> Agreement option" where
  "stored_agreement c d k =
     (case raw_value d k of None \<Rightarrow> None | Some v \<Rightarrow> Unmarshal c v)"

text \<open>The entries of the agreements bucket in key order; none when there is no bucket.\<close>

definition entries :: "db \<Rightarrow> (bytes \<times> bytes) list" where
  "entries d = (case Bucket d AGREEMENTS of None \<Rightarrow> [] | Some b \<Rightarrow> b)"

text \<open>The records that decode, and the values that do not, both in key order.\<close>

definition decodable :: "codec \<Rightarrow> db \<Rightarrow> Agreement list" where
  "decodable c d = List.map_filter (\<lambda>kv. Unmarshal c (snd kv)) (entries d)"

definition undecodable :: "codec \<Rightarrow> db \<Rightarrow> bytes list" where
  "undecodable c d = filter (\<lambda>v. Unmarshal c v = None) (map snd (entries d))"

text \<open>The records that decode and carry a given id, in key order.\<close>

definition matching :: "codec \<Rightarrow> db \<Rightarrow> string \<Rightarrow> Agreement list" where
  "matching c d i = filter (\<lambda>a. CurrentAgreementId a = i) (decodable c d)"

text \<open>
  The store is keyed by id when every record that decodes is stored under its own
  \<open>CurrentAgreementId\<close>. \<open>AgreementAttempt\<close> writes records so.
\<close>

definition keyed_by_id :: "codec \<Rightarrow> db \<Rightarrow> bool" where
  "keyed_by_id c d =
     list_all (\<lambda>kv. case Unmarshal c (snd kv) of
                        None \<Rightarrow> True
                      | Some a \<Rightarrow> CurrentAgreementId a = fst kv) (entries d)"

text \<open>The codec round-trips a record: it serializes, and the bytes decode to the record.\<close>

definition roundtrips :: "codec \<Rightarrow> Agreement \<Rightarrow> bool" where
  "roundtrips c a =
     (case Marshal c a of None \<Rightarrow> False | Some v \<Rightarrow> Unmarshal c v = Some a)"

section \<open>A codec to run the model on\<close>

text \<open>
  To evaluate the functions above on concrete stores the codec parameter needs a value.
  \<open>text_codec\<close> writes an Agreement as a JSON object with the field names of the struct
  tags, in the order of the struct, and reads exactly that layout back. It stands in for
  \<^verbatim>\<open>encoding/json\<close> in examples only; every general statement below is about an arbitrary
  codec.
\<close>

definition quote :: "string \<Rightarrow> string" where
  "quote s =
     CHR 0x22 # concat (map (\<lambda>ch. if ch = CHR 0x22 \<or> ch = CHR 0x5C then [CHR 0x5C, ch] else [ch]) s)
       @ [CHR 0x22]"

function to_digits :: "int \<Rightarrow> string" where
  "to_digits n =
     (if n < 10 then [char_of (48 + n)] else to_digits (n div 10) @ [char_of (48 + n mod 10)])"
  by pat_completeness auto
termination
  by (relation "measure nat") auto

definition text_marshal :: "Agreement \<Rightarrow> bytes option" where
  \<open>text_marshal a = Some (
     ''{"current_agreement_id":'' @ quote (CurrentAgreementId a) @
     '',"agreement_protocol":'' @ quote (AgreementProtocol a) @
     '',"agreement_inception_time":'' @ to_digits (uint (AgreementInceptionTime a)) @
     '',"agreement_creation_time":'' @ to_digits (uint (AgreementCreationTime a)) @
     '',"proposal":'' @ quote (Proposal a) @
     '',"data_verification_URL":'' @ quote (DataVerificationURL a) @
     '',"disable_data_verification_checks":'' @
        (if DisableDataVerificationChecks a then ''true'' else ''false'') @ ''}'')\<close>

fun expect :: "string \<Rightarrow> string \<Rightarrow> string option" where
  "expect [] s = Some s"
| "expect (p # ps) [] = None"
| "expect (p # ps) (x # xs) = (if p = x then expect ps xs else None)"

fun read_chars :: "bool \<Rightarrow> string \<Rightarrow> string \<Rightarrow> (string \<times> string) option" where
  "read_chars esc acc [] = None"
| "read_chars True acc (x # xs) =
     (if x = CHR 0x22 \<or> x = CHR 0x5C then read_chars False (x # acc) xs else None)"
| "read_chars False acc (x # xs) =
     (if x = CHR 0x22 then Some (rev acc, xs)
      else if x = CHR 0x5C then read_chars True acc xs
      else read_chars False (x # acc) xs)"

definition read_string :: "string \<Rightarrow> (string \<times> string) option" where
  "read_string s = Option.bind (expect [CHR 0x22] s) (read_chars False [])"

fun read_digits :: "int option \<Rightarrow> string \<Rightarrow> (int \<times> string) option" where
  "read_digits acc [] = map_option (\<lambda>n. (n, [])) acc"
| "read_digits acc (x # xs) =
     (if CHR ''0'' \<le> x \<and> x \<le> CHR ''9''
      then read_digits (Some (10 * (case acc of None \<Rightarrow> 0 | Some n \<Rightarrow> n) + (of_char x - 48))) xs
      else map_option (\<lambda>n. (n, x # xs)) acc)"

definition read_uint64 :: "string \<Rightarrow> (64 word \<times> string) option" where
  "read_uint64 s =
     Option.bind (read_digits None s)
       (\<lambda>(n, rest). if n < 2 ^ 64 then Some (word_of_int n, rest) else None)"

definition read_bool :: "string \<Rightarrow> (bool \<times> string) option" where
  "read_bool s =
     (case expect ''true'' s of
        Some rest \<Rightarrow> Some (True, rest)
      | None \<Rightarrow> map_option (\<lambda>rest. (False, rest)) (expect ''false'' s))"

definition text_unmarshal :: "bytes \<Rightarrow> Agreement option" where
  \<open>text_unmarshal s0 =
     Option.bind (expect ''{"current_agreement_id":'' s0) (\<lambda>s1.
     Option.bind (read_string s1) (\<lambda>(ident, s2).
     Option.bind (expect '',"agreement_protocol":'' s2) (\<lambda>s3.
     Option.bind (read_string s3) (\<lambda>(proto, s4).
     Option.bind (expect '',"agreement_inception_time":'' s4) (\<lambda>s5.
     Option.bind (read_uint64 s5) (\<lambda>(inception, s6).
     Option.bind (expect '',"agreement_creation_time":'' s6) (\<lambda>s7.
     Option.bind (read_uint64 s7) (\<lambda>(creation, s8).
     Option.bind (expect '',"proposal":'' s8) (\<lambda>s9.
     Option.bind (read_string s9) (\<lambda>(prop, s10).
     Option.bind (expect '',"data_verification_URL":'' s10) (\<lambda>s11.
     Option.bind (read_string s11) (\<lambda>(url, s12).
     Option.bind (expect '',"disable_data_verification_checks":'' s12) (\<lambda>s13.
     Option.bind (read_bool s13) (\<lambda>(checks, s14).
       if s14 = ''}''
       then Some \<lparr> CurrentAgreementId = ident, AgreementProtocol = proto,
                    AgreementInceptionTime = inception, AgreementCreationTime = creation,
                    Proposal = prop, DataVerificationURL = url,
                    DisableDataVerificationChecks = checks \<rparr>
       else None))))))))))))))\<close>

definition text_codec :: codec where
  "text_codec = \<lparr> Marshal = text_marshal, Unmarshal = text_unmarshal \<rparr>"

section \<open>The string coercion of \<^verbatim>\<open>json.Marshal\<close>\<close>

text \<open>
  \<^verbatim>\<open>json.Marshal\<close> writes a Go string as a JSON string coerced to valid UTF-8: every byte
  that does not start a valid UTF-8 sequence is replaced by the replacement rune U+FFFD,
  whose UTF-8 encoding is the three bytes EF BF BD, and \<^verbatim>\<open>json.Unmarshal\<close> reads that rune
  back. \<open>utf8_width\<close> is the length of the valid sequence at the head of a string (0 when
  there is none), with the ranges of \<^verbatim>\<open>unicode/utf8\<close>: no overlong forms, no surrogates,
  nothing above U+10FFFF. \<open>utf8_codec\<close> is \<open>text_codec\<close> with the four string fields coerced
  before they are written.
\<close>

definition byte_in :: "int \<Rightarrow> int \<Rightarrow> char \<Rightarrow> bool" where
  "byte_in lo hi ch = (lo \<le> of_char ch \<and> of_char ch \<le> hi)"

fun utf8_width :: "string \<Rightarrow> nat" where
  "utf8_width [] = 0"
| "utf8_width (b0 # rest) =
     (if byte_in 0x00 0x7F b0 then 1
      else if byte_in 0xC2 0xDF b0 then
        (case rest of
           b1 # _ \<Rightarrow> if byte_in 0x80 0xBF b1 then 2 else 0
         | _ \<Rightarrow> 0)
      else if byte_in 0xE0 0xEF b0 then
        (case rest of
           b1 # b2 # _ \<Rightarrow>
             if byte_in (if b0 = CHR 0xE0 then 0xA0 else 0x80)
                        (if b0 = CHR 0xED then 0x9F else 0xBF) b1
                \<and> byte_in 0x80 0xBF b2
             then 3 else 0
         | _ \<Rightarrow> 0)
      else if byte_in 0xF0 0xF4 b0 then
        (case rest of
           b1 # b2 # b3 # _ \<Rightarrow>
             if byte_in (if b0 = CHR 0xF0 then 0x90 else 0x80)
                        (if b0 = CHR 0xF4 then 0x8F else 0xBF) b1
                \<and> byte_in 0x80 0xBF b2 \<and> byte_in 0x80 0xBF b3
             then 4 else 0
         | _ \<Rightarrow> 0)
      else 0)"

fun coerce :: "nat \<Rightarrow> string \<Rightarrow> string" where
  "coerce k [] = []"
| "coerce (Suc k) (b # bs) = b # coerce k bs"
| "coerce 0 (b # bs) =
     (case utf8_width (b # bs) of
        0 \<Rightarrow> [CHR 0xEF, CHR 0xBF, CHR 0xBD] @ coerce 0 bs
      | Suc n \<Rightarrow> b # coerce n bs)"

definition to_valid_utf8 :: "string \<Rightarrow> string" where
  "to_valid_utf8 s = coerce 0 s"

definition utf8_marshal :: "Agreement \<Rightarrow> bytes option" where
  "utf8_marshal a =
     text_marshal (a\<lparr> CurrentAgreementId := to_valid_utf8 (CurrentAgreementId a),
                       AgreementProtocol := to_valid_utf8 (AgreementProtocol a),
                       Proposal := to_valid_utf8 (Proposal a),
                       DataVerificationURL := to_valid_utf8 (DataVerificationURL a) \<rparr>)"

definition utf8_codec :: codec where
  "utf8_codec = \<lparr> Marshal = utf8_marshal, Unmarshal = text_unmarshal \<rparr>"

section \<open>Example stores\<close>

definition agr1 :: Agreement where
  "agr1 = \<lparr> CurrentAgreementId = ''agr-1'', AgreementProtocol = ''proto-v1'',
            AgreementInceptionTime = 1500000000, AgreementCreationTime = 0,
            Proposal = [], DataVerificationURL = [],
            DisableDataVerificationChecks = False \<rparr>"

text \<open>The empty database after \<open>AgreementAttempt\<close> for "agr-1" at Unix time 1500000000.\<close>

definition store1 :: db where
  "store1 = fst (AgreementAttempt text_codec 1500000000 [] ''agr-1'' ''proto-v1'')"

text \<open>A transformation that overwrites every field of its argument.\<close>

definition tampered :: Agreement where
  "tampered = \<lparr> CurrentAgreementId = ''evil'', AgreementProtocol = ''other'',
                AgreementInceptionTime = 7, AgreementCreationTime = 42,
                Proposal = ''P'', DataVerificationURL = ''U'',
                DisableDataVerificationChecks = True \<rparr>"

definition tamper :: "Agreement \<Rightarrow> Agreement option" where
  "tamper a = Some tampered"

definition store2 :: db where
  "store2 = fst (singleAgreementUpdate text_codec store1 ''agr-1'' tamper)"

text \<open>The bytes \<open>text_codec\<close> writes for \<open>agr1\<close>.\<close>

definition agr1_bytes :: bytes where
  \<open>agr1_bytes = ''{"current_agreement_id":"agr-1","agreement_protocol":"proto-v1","agreement_inception_time":1500000000,"agreement_creation_time":0,"proposal":"","data_verification_URL":"","disable_data_verification_checks":false}''\<close>

text \<open>\<open>store1\<close> after \<open>AgreementMade\<close> at Unix time 1500000100, and the record it leaves.\<close>

definition made_rec :: Agreement where
  "made_rec = \<lparr> CurrentAgreementId = ''agr-1'', AgreementProtocol = ''proto-v1'',
                AgreementInceptionTime = 1500000000, AgreementCreationTime = 1500000100,
                Proposal = ''P'', DataVerificationURL = ''U'',
                DisableDataVerificationChecks = True \<rparr>"

definition store3 :: db where
  "store3 = fst (AgreementMade text_codec 1500000100 store1 ''agr-1'' ''P'' ''U'' True)"

text \<open>A store with the one agreement "a".\<close>

definition agr_a :: Agreement where
  "agr_a = \<lparr> CurrentAgreementId = ''a'', AgreementProtocol = ''proto-v1'',
             AgreementInceptionTime = 1500000000, AgreementCreationTime = 0,
             Proposal = [], DataVerificationURL = [],
             DisableDataVerificationChecks = False \<rparr>"

definition store_a :: db where
  "store_a = fst (AgreementAttempt text_codec 1500000000 [] ''a'' ''proto-v1'')"

text \<open>
  Stores that \<open>AgreementAttempt\<close> does not produce, written with \<open>PersistNew\<close>: the record
  \<open>agr1\<close> under the key "k1" only; the same record under the two keys "k1" and "k2"; the
  store \<open>store1\<close> with a value that does not decode under a key before "agr-1"; and a
  value that does not decode under the key "agr-1".
\<close>

definition store_k1 :: db where
  "store_k1 = fst (PersistNew text_marshal [] ''k1'' ''agreements'' agr1)"

definition store_dup :: db where
  "store_dup = fst (PersistNew text_marshal store_k1 ''k2'' ''agreements'' agr1)"

definition store_junk1 :: db where
  "store_junk1 = fst (PersistNew (\<lambda>s. Some s) store1 ''a-junk'' ''agreements'' ''not json'')"

definition store_bad :: db where
  "store_bad = fst (PersistNew (\<lambda>s. Some s) [] ''agr-1'' ''agreements'' ''not json'')"

text \<open>
  With \<open>utf8_codec\<close>: the empty database after \<open>AgreementAttempt\<close> for the one-byte id FF,
  which is not valid UTF-8; the empty database after \<open>AgreementAttempt\<close> for "agr-1"; and
  that store after \<open>AgreementMade\<close> at clock reading 0, and after \<open>AgreementMade\<close> with the
  one-byte proposal FF.
\<close>

definition store_ff :: db where
  "store_ff = fst (AgreementAttempt utf8_codec 1500000000 [] [CHR 0xFF] ''proto-v1'')"

definition store1u :: db where
  "store1u = fst (AgreementAttempt utf8_codec 1500000000 [] ''agr-1'' ''proto-v1'')"

definition store_epoch :: db where
  "store_epoch = fst (AgreementMade utf8_codec 0 store1u ''agr-1'' ''P'' ''U'' True)"

definition store_ffprop :: db where
  "store_ffprop = fst (AgreementMade utf8_codec 1500000100 store1u ''agr-1'' [CHR 0xFF] ''U'' True)"

section \<open>The store\<close>

lemma map_of_kv_delete:
  "map_of (kv_delete k kvs) k' = (if k' = k then None else map_of kvs k')"
  by (induction kvs) (auto simp: kv_delete_def)

lemma map_of_insort_key:
  "map_of (insort_key fst (k, v) kvs) k' = (if k' = k then Some v else map_of kvs k')"
  by (induction kvs) auto

lemma map_of_kv_put:
  "map_of (kv_put k v kvs) k' = (if k' = k then Some v else map_of kvs k')"
  by (simp add: kv_put_def map_of_insort_key map_of_kv_delete)

lemma set_kv_put: "set (kv_put k v kvs) = insert (k, v) {e \<in> set kvs. fst e \<noteq> k}"
  by (auto simp: kv_put_def kv_delete_def set_insort_key)

lemma map_of_store_bucket:
  "map_of (store_bucket tx name b) name' = (if name' = name then Some b else map_of tx name')"
  by (simp add: store_bucket_def map_of_kv_put)

lemma Bucket_store_bucket:
  "Bucket (store_bucket tx name b) name' = (if name' = name then Some b else Bucket tx name')"
  by (simp add: Bucket_def map_of_store_bucket)

lemma entries_store_bucket: "entries (store_bucket tx AGREEMENTS b) = b"
  by (simp add: entries_def Bucket_store_bucket)

section \<open>The scan\<close>

text \<open>The flag is raised exactly when some filter rejects the record.\<close>

lemma run_filters_eq: "run_filters fs a ex = (ex \<or> \<not> list_all (\<lambda>f. f a) fs)"
  by (induction fs arbitrary: ex) auto

lemma visit_eq:
  "visit c fs (ags, lg) kv =
     (case Unmarshal c (snd kv) of
        None \<Rightarrow> (ags, lg @ [ErrDeserializeRecord (snd kv)])
      | Some a \<Rightarrow> if list_all (\<lambda>f. f a) fs then (ags @ [a], lg) else (ags, lg))"
  by (simp add: visit_def run_filters_eq split: option.split)

lemma foldl_visit:
  "foldl (visit c fs) (ags, lg) b =
     (ags @ filter (\<lambda>a. list_all (\<lambda>f. f a) fs) (List.map_filter (\<lambda>kv. Unmarshal c (snd kv)) b),
      lg @ map ErrDeserializeRecord (filter (\<lambda>v. Unmarshal c v = None) (map snd b)))"
proof (induction b arbitrary: ags lg)
  case Nil
  show ?case by simp
next
  case (Cons kv b)
  show ?case
    by (cases "Unmarshal c (snd kv)") (simp_all add: visit_eq Cons.IH)
qed

lemma FindAgreements_eq:
  "FindAgreements c d fs =
     (map ErrDeserializeRecord (undecodable c d),
      Inr (filter (\<lambda>a. list_all (\<lambda>f. f a) fs) (decodable c d)))"
  by (simp add: FindAgreements_def View_def ForEach_def foldl_visit decodable_def undecodable_def
      entries_def split: option.split)

lemma FindSingle_eq:
  "FindSingleAgreementByAgreementId c d i =
     (map ErrDeserializeRecord (undecodable c d),
      case matching c d i of
        [] \<Rightarrow> Inr None
      | [a] \<Rightarrow> Inr (Some a)
      | a # b # ms \<Rightarrow> Inl (ExpectedOnlyOne i (a # b # ms)))"
  by (simp add: FindSingleAgreementByAgreementId_def FindAgreements_eq IdAFilter_def matching_def
      len_def split: list.split)

section \<open>Lists\<close>

lemma filter_map_filter:
  "filter P (List.map_filter g xs) =
     List.map_filter (\<lambda>e. case g e of None \<Rightarrow> None | Some a \<Rightarrow> if P a then Some a else None) xs"
  by (induction xs) (auto split: option.splits)

lemma map_filter_all_None: "\<forall>e \<in> set xs. h e = None \<Longrightarrow> List.map_filter h xs = []"
  by (induction xs) auto

lemma map_filter_insort_key:
  "\<forall>e \<in> set xs. h e = None \<Longrightarrow> List.map_filter h (insort_key f x xs) = List.map_filter h [x]"
  by (induction xs) (auto simp: map_filter_all_None split: option.splits)

lemma in_map_filter:
  "x \<in> set xs \<Longrightarrow> g x = Some y \<Longrightarrow> y \<in> set (List.map_filter g xs)"
  by (induction xs) (auto split: option.splits)

section \<open>Lookup by id after a write\<close>

lemma matching_kv_put:
  assumes keyed: "list_all (\<lambda>kv. case Unmarshal c (snd kv) of None \<Rightarrow> True
                      | Some a \<Rightarrow> CurrentAgreementId a = fst kv) b"
  shows "filter (\<lambda>a. CurrentAgreementId a = i) (List.map_filter (\<lambda>kv. Unmarshal c (snd kv)) (kv_put i v b))
       = (case Unmarshal c v of None \<Rightarrow> [] | Some a \<Rightarrow> if CurrentAgreementId a = i then [a] else [])"
proof -
  have "\<forall>e \<in> set (kv_delete i b). (case Unmarshal c (snd e) of None \<Rightarrow> None
                          | Some a \<Rightarrow> if CurrentAgreementId a = i then Some a else None) = None"
    using keyed by (auto simp: kv_delete_def list_all_iff split: option.splits)
  then show ?thesis
    unfolding kv_put_def filter_map_filter
    by (subst map_filter_insort_key) (auto split: option.splits)
qed

lemma matching_store:
  assumes "keyed_by_id c d" and "Bucket d' AGREEMENTS = Some (kv_put i v (entries d))"
  shows "matching c d' i = (case Unmarshal c v of None \<Rightarrow> [] | Some a \<Rightarrow> if CurrentAgreementId a = i then [a] else [])"
  using assms matching_kv_put[of c "entries d" i v]
  by (simp add: matching_def decodable_def keyed_by_id_def entries_def)

lemma stored_in_matching:
  assumes keyed: "keyed_by_id c d" and st: "stored_agreement c d i = Some old"
  shows "old \<in> set (matching c d i)"
proof -
  from st obtain cur where cur: "map_of (entries d) i = Some cur" and dec: "Unmarshal c cur = Some old"
    by (auto simp: stored_agreement_def raw_value_def entries_def Get_def split: option.splits)
  from cur have mem: "(i, cur) \<in> set (entries d)" by (rule map_of_SomeD)
  with keyed dec have "CurrentAgreementId old = i"
    by (auto simp: keyed_by_id_def list_all_iff)
  moreover from mem dec have "old \<in> set (decodable c d)"
    by (simp add: decodable_def in_map_filter[where g = "\<lambda>kv. Unmarshal c (snd kv)"])
  ultimately show ?thesis by (simp add: matching_def)
qed

lemma found_is_stored:
  assumes keyed: "keyed_by_id c d"
      and found: "snd (FindSingleAgreementByAgreementId c d i) = Inr (Some a)"
      and st: "stored_agreement c d i = Some old"
  shows "old = a \<and> CurrentAgreementId a = i"
proof -
  from found have m: "matching c d i = [a]"
    by (auto simp: FindSingle_eq split: list.splits)
  from stored_in_matching[OF keyed st] m have "old = a" by simp
  moreover from m have "a \<in> set (matching c d i)" by simp
  then have "CurrentAgreementId a = i" by (simp add: matching_def)
  ultimately show ?thesis by simp
qed

section \<open>Writes\<close>

lemma PersistNew_Ok:
  assumes "PersistNew m d pk bucket r = (d', lg, Ok)"
  shows "\<exists>v. m r = Some v \<and> pk \<noteq> [] \<and> bucket \<noteq> [] \<and> lg = []
            \<and> map_of (case Bucket d bucket of None \<Rightarrow> [] | Some b \<Rightarrow> b) pk = None
            \<and> Bucket d' bucket = Some (kv_put pk v (case Bucket d bucket of None \<Rightarrow> [] | Some b \<Rightarrow> b))"
  using assms
  by (auto simp: PersistNew_def Update_def CreateBucketIfNotExists_def Put_def Get_def
      map_of_store_bucket Bucket_def split: if_splits option.splits sum.splits)

lemma persist_Ok:
  assumes "persistUpdatedAgreement c d i upd = (d', lg, Ok)"
  shows "\<exists>b cur old u v. Bucket d AGREEMENTS = Some b \<and> map_of b i = Some cur
            \<and> Unmarshal c cur = Some old \<and> upd = Some u
            \<and> Marshal c (replace_members old u) = Some v \<and> lg = []
            \<and> Bucket d' AGREEMENTS = Some (kv_put i v b)"
  using assms
  by (auto simp: persistUpdatedAgreement_def Update_def CreateBucketIfNotExists_def Put_def Get_def
      map_of_store_bucket Bucket_def Let_def split: if_splits option.splits sum.splits)

lemma stored_after_persist:
  assumes p: "persistUpdatedAgreement c d i upd = (d', lg, Ok)"
  shows "\<exists>old u v. stored_agreement c d i = Some old \<and> upd = Some u
           \<and> Marshal c (replace_members old u) = Some v \<and> raw_value d' i = Some v
           \<and> Bucket d' AGREEMENTS = Some (kv_put i v (entries d))"
proof -
  from persist_Ok[OF p] obtain b cur old u v where
    h: "Bucket d AGREEMENTS = Some b" "map_of b i = Some cur" "Unmarshal c cur = Some old"
       "upd = Some u" "Marshal c (replace_members old u) = Some v"
       "Bucket d' AGREEMENTS = Some (kv_put i v b)"
    by blast
  then show ?thesis
    by (simp add: stored_agreement_def raw_value_def Get_def entries_def map_of_kv_put)
qed

lemma single_Ok:
  assumes "singleAgreementUpdate c d i fn = (d', lg, ret, Ok)"
  shows "\<exists>a lg1 lg2. FindSingleAgreementByAgreementId c d i = (lg1, Inr (Some a)) \<and> ret = fn a
           \<and> persistUpdatedAgreement c d i (fn a) = (d', lg2, Ok) \<and> lg = lg1 @ lg2"
  using assms
  by (auto simp: singleAgreementUpdate_def Let_def split: prod.splits sum.splits option.splits)

lemma attempt_Ok:
  assumes "AgreementAttempt c now d i proto = (d', lg, Ok)"
  shows "i \<noteq> [] \<and> proto \<noteq> []
       \<and> PersistNew (Marshal c) d i AGREEMENTS
            \<lparr> CurrentAgreementId = i, AgreementProtocol = proto,
              AgreementInceptionTime = word_of_int now, AgreementCreationTime = 0,
              Proposal = [], DataVerificationURL = [],
              DisableDataVerificationChecks = False \<rparr> = (d', lg, Ok)"
  using assms
  by (auto simp: AgreementAttempt_def agreement_def split: if_splits prod.splits outcome.splits)

lemma made_Ok:
  assumes "AgreementMade c now d i p url ch = (d', lg, ret, Ok)"
  shows "singleAgreementUpdate c d i
           (\<lambda>a. Some (a\<lparr> AgreementCreationTime := word_of_int now, Proposal := p,
                          DataVerificationURL := url, DisableDataVerificationChecks := ch \<rparr>))
         = (d', lg, ret, Ok)"
  using assms
  by (auto simp: AgreementMade_def split: prod.splits outcome.splits)

lemma clock_positive:
  assumes "now \<noteq> 0" and "- (2 ^ 63) \<le> now" and "now < 2 ^ 63"
  shows "(0 :: 64 word) < word_of_int now"
proof -
  have "\<not> (2 ^ 64 :: int) dvd now"
  proof
    assume "(2 ^ 64 :: int) dvd now"
    then obtain k where k: "now = 2 ^ 64 * k" by (auto simp: dvd_def)
    with assms show False by (cases "k \<le> 0"; cases "k = 0") auto
  qed
  then have "(word_of_int now :: 64 word) \<noteq> 0"
    by (simp add: word_of_int_eq_0_iff)
  then show ?thesis by (simp add: word_gt_0)
qed

lemma find_after_update:
  assumes keyed: "keyed_by_id c d"
      and found: "snd (FindSingleAgreementByAgreementId c d i) = Inr (Some a)"
      and upd: "singleAgreementUpdate c d i fn = (d', lg, ret, Ok)"
      and fn: "fn a = Some u"
      and rt: "roundtrips c (replace_members a u)"
  shows "ret = Some u \<and> stored_agreement c d i = Some a
       \<and> stored_agreement c d' i = Some (replace_members a u)
       \<and> snd (FindSingleAgreementByAgreementId c d' i) = Inr (Some (replace_members a u))"
proof -
  from single_Ok[OF upd] found fn obtain lg2 where
    ret: "ret = Some u" and p: "persistUpdatedAgreement c d i (Some u) = (d', lg2, Ok)"
    by auto
  from stored_after_persist[OF p] obtain old v where
    old: "stored_agreement c d i = Some old"
    and m: "Marshal c (replace_members old u) = Some v"
    and b: "Bucket d' AGREEMENTS = Some (kv_put i v (entries d))"
    by auto
  from found_is_stored[OF keyed found old] have eq: "old = a" and ida: "CurrentAgreementId a = i"
    by simp_all
  from rt m eq have dec: "Unmarshal c v = Some (replace_members a u)"
    by (simp add: roundtrips_def)
  from b have "raw_value d' i = Some v"
    by (simp add: raw_value_def Get_def map_of_kv_put)
  with dec have st: "stored_agreement c d' i = Some (replace_members a u)"
    by (simp add: stored_agreement_def)
  from matching_store[OF keyed b] dec ida have "matching c d' i = [replace_members a u]"
    by (simp add: replace_members_def)
  then have "snd (FindSingleAgreementByAgreementId c d' i) = Inr (Some (replace_members a u))"
    by (simp add: FindSingle_eq)
  with ret old eq st show ?thesis by simp
qed

section \<open>The store stays keyed by id\<close>

lemma keyed_empty: "keyed_by_id c []"
  by (simp add: keyed_by_id_def entries_def Bucket_def)

lemma keyed_put:
  assumes keyed: "keyed_by_id c d"
      and b: "Bucket d' AGREEMENTS = Some (kv_put i v (entries d))"
      and dec: "Unmarshal c v = Some a" and ida: "CurrentAgreementId a = i"
  shows "keyed_by_id c d'"
  using assms
  by (auto simp: keyed_by_id_def entries_def list_all_iff set_kv_put split: option.splits)

lemma keyed_after_create:
  assumes keyed: "keyed_by_id c d"
      and created: "AgreementAttempt c now d i proto = (d', lg, Ok)"
      and rt: "roundtrips c \<lparr> CurrentAgreementId = i, AgreementProtocol = proto,
                              AgreementInceptionTime = word_of_int now, AgreementCreationTime = 0,
                              Proposal = [], DataVerificationURL = [],
                              DisableDataVerificationChecks = False \<rparr>"
  shows "keyed_by_id c d'"
proof -
  let ?a = "\<lparr> CurrentAgreementId = i, AgreementProtocol = proto,
              AgreementInceptionTime = word_of_int now, AgreementCreationTime = 0,
              Proposal = [], DataVerificationURL = [],
              DisableDataVerificationChecks = False \<rparr>"
  from attempt_Ok[OF created] have p: "PersistNew (Marshal c) d i AGREEMENTS ?a = (d', lg, Ok)"
    by simp
  from PersistNew_Ok[OF p] obtain v where
    m: "Marshal c ?a = Some v" and b: "Bucket d' AGREEMENTS = Some (kv_put i v (entries d))"
    by (auto simp: entries_def)
  from rt m have "Unmarshal c v = Some ?a" by (simp add: roundtrips_def)
  from keyed_put[OF keyed b this] show ?thesis by simp
qed

lemma keyed_after_update:
  assumes keyed: "keyed_by_id c d"
      and upd: "singleAgreementUpdate c d i fn = (d', lg, Some u, Ok)"
      and old: "stored_agreement c d i = Some old"
      and rt: "roundtrips c (replace_members old u)"
  shows "keyed_by_id c d'"
proof -
  from single_Ok[OF upd] obtain a lg2 where
    fn: "fn a = Some u" and p: "persistUpdatedAgreement c d i (fn a) = (d', lg2, Ok)"
    by auto
  from stored_after_persist[OF p] old fn obtain v where
    m: "Marshal c (replace_members old u) = Some v"
    and b: "Bucket d' AGREEMENTS = Some (kv_put i v (entries d))"
    by auto
  from rt m have dec: "Unmarshal c v = Some (replace_members old u)"
    by (simp add: roundtrips_def)
  from stored_in_matching[OF keyed old] have "CurrentAgreementId (replace_members old u) = i"
    by (simp add: matching_def replace_members_def)
  from keyed_put[OF keyed b dec this] show ?thesis .
qed

lemma keyed_after_delete:
  assumes keyed: "keyed_by_id c d"
  shows "keyed_by_id c (fst (DeleteAgreement c d pk))"
  using keyed
  by (auto simp: DeleteAgreement_def Update_def Delete_def Let_def keyed_by_id_def
      entries_def Bucket_store_bucket kv_delete_def list_all_iff split: option.splits)

section \<open>When the writes succeed\<close>

text \<open>
  The statements below about a successful creation or update are about calls that do
  succeed; these are the conditions under which they do.
\<close>

lemma AgreementAttempt_succeeds:
  assumes "i \<noteq> []" and "proto \<noteq> []"
      and fresh: "raw_value d i = None"
      and "len i \<le> MaxKeySize"
      and "Marshal c \<lparr> CurrentAgreementId = i, AgreementProtocol = proto,
                        AgreementInceptionTime = word_of_int now, AgreementCreationTime = 0,
                        Proposal = [], DataVerificationURL = [],
                        DisableDataVerificationChecks = False \<rparr> = Some v"
      and "len v \<le> MaxValueSize"
  shows "\<exists>d'. AgreementAttempt c now d i proto = (d', [], Ok)"
  using assms
  by (auto simp: AgreementAttempt_def agreement_def PersistNew_def Update_def
      CreateBucketIfNotExists_def Get_def Put_def raw_value_def Bucket_def AGREEMENTS_def len_def
      split: option.splits)

lemma persist_succeeds:
  assumes "i \<noteq> []" and "len i \<le> MaxKeySize"
      and "stored_agreement c d i = Some old"
      and "Marshal c (replace_members old u) = Some v"
      and "len v \<le> MaxValueSize"
  shows "\<exists>d'. persistUpdatedAgreement c d i (Some u) = (d', [], Ok)"
  using assms
  by (auto simp: persistUpdatedAgreement_def Update_def CreateBucketIfNotExists_def Get_def Put_def
      stored_agreement_def raw_value_def Bucket_def AGREEMENTS_def len_def Let_def
      split: option.splits)

lemma AgreementMade_succeeds:
  assumes found: "FindSingleAgreementByAgreementId c d i = (lg, Inr (Some a))"
      and "i \<noteq> []" and "len i \<le> MaxKeySize"
      and old: "stored_agreement c d i = Some old"
      and m: "Marshal c (replace_members old
                 (a\<lparr> AgreementCreationTime := word_of_int now, Proposal := p,
                      DataVerificationURL := url, DisableDataVerificationChecks := ch \<rparr>)) = Some v"
      and "len v \<le> MaxValueSize"
  shows "\<exists>d'. AgreementMade c now d i p url ch
           = (d', lg, Some (a\<lparr> AgreementCreationTime := word_of_int now, Proposal := p,
                                 DataVerificationURL := url,
                                 DisableDataVerificationChecks := ch \<rparr>), Ok)"
proof -
  from persist_succeeds[OF assms(2,3) old m assms(6)] obtain d' where
    "persistUpdatedAgreement c d i
       (Some (a\<lparr> AgreementCreationTime := word_of_int now, Proposal := p,
                  DataVerificationURL := url, DisableDataVerificationChecks := ch \<rparr>)) = (d', [], Ok)"
    by blast
  with found show ?thesis
    by (simp add: AgreementMade_def singleAgreementUpdate_def Let_def)
qed

section \<open>Properties of the persistence layer\<close>

text \<open>
  C1. A successful \<open>singleAgreementUpdate\<close> leaves id, protocol and inception time of the
  stored record as they were, whatever the transformation \<open>fn\<close> did to them on its copy:
  the record stored afterwards under the id has these three fields from the record stored
  before, and creation time, proposal, data verification URL and the checks flag from the
  transformation's result \<open>u\<close>. "The stored record" is the decoded value under the key, so
  the statement needs the codec to give back the record that was written.
\<close>

theorem update_keeps_immutable_fields:
  assumes upd: "singleAgreementUpdate c d i fn = (d', lg, Some u, Ok)"
      and old: "stored_agreement c d i = Some old"
      and rt: "roundtrips c (replace_members old u)"
  shows "\<exists>new. stored_agreement c d' i = Some new
           \<and> CurrentAgreementId new = CurrentAgreementId old
           \<and> AgreementProtocol new = AgreementProtocol old
           \<and> AgreementInceptionTime new = AgreementInceptionTime old
           \<and> AgreementCreationTime new = AgreementCreationTime u
           \<and> Proposal new = Proposal u
           \<and> DataVerificationURL new = DataVerificationURL u
           \<and> DisableDataVerificationChecks new = DisableDataVerificationChecks u"
proof -
  from single_Ok[OF upd] obtain a lg2 where
    fn: "fn a = Some u" and p: "persistUpdatedAgreement c d i (fn a) = (d', lg2, Ok)"
    by auto
  from stored_after_persist[OF p] old fn obtain v where
    m: "Marshal c (replace_members old u) = Some v" and r: "raw_value d' i = Some v"
    by auto
  from rt m have "Unmarshal c v = Some (replace_members old u)"
    by (simp add: roundtrips_def)
  with r have "stored_agreement c d' i = Some (replace_members old u)"
    by (simp add: stored_agreement_def)
  then show ?thesis
    by (simp add: replace_members_def)
qed

theorem update_keeps_immutable_fields_witness:
  "singleAgreementUpdate text_codec store1 ''agr-1'' tamper = (store2, [], Some tampered, Ok)
   \<and> stored_agreement text_codec store1 ''agr-1'' = Some agr1
   \<and> roundtrips text_codec (replace_members agr1 tampered)
   \<and> (\<exists>new. stored_agreement text_codec store2 ''agr-1'' = Some new
           \<and> CurrentAgreementId new = ''agr-1''
           \<and> AgreementProtocol new = ''proto-v1''
           \<and> AgreementInceptionTime new = 1500000000
           \<and> AgreementCreationTime new = 42
           \<and> Proposal new = ''P''
           \<and> DataVerificationURL new = ''U''
           \<and> DisableDataVerificationChecks new = True)"
proof -
  have upd: "singleAgreementUpdate text_codec store1 ''agr-1'' tamper = (store2, [], Some tampered, Ok)"
    by code_simp
  have old: "stored_agreement text_codec store1 ''agr-1'' = Some agr1"
    by code_simp
  have rt: "roundtrips text_codec (replace_members agr1 tampered)"
    by code_simp
  from update_keeps_immutable_fields[OF upd old rt] upd old rt show ?thesis
    by (simp add: agr1_def tampered_def)
qed

text \<open>
  C2. \<open>FindSingleAgreementByAgreementId\<close> returns nil and no error when no stored record
  that decodes carries the id, the record when exactly one does, and the error
  \<open>ExpectedOnlyOne\<close> with the id and all the matching records when more than one does.
\<close>

theorem find_by_id_contract:
  "(matching c d i = [] \<longrightarrow> snd (FindSingleAgreementByAgreementId c d i) = Inr None)
   \<and> (\<forall>a. matching c d i = [a] \<longrightarrow> snd (FindSingleAgreementByAgreementId c d i) = Inr (Some a))
   \<and> (length (matching c d i) > 1 \<longrightarrow>
        snd (FindSingleAgreementByAgreementId c d i) = Inl (ExpectedOnlyOne i (matching c d i)))"
  by (auto simp: FindSingle_eq split: list.splits)

theorem find_by_id_contract_witness:
  "matching text_codec store1 ''agr-9'' = []
   \<and> snd (FindSingleAgreementByAgreementId text_codec store1 ''agr-9'') = Inr None
   \<and> matching text_codec store1 ''agr-1'' = [agr1]
   \<and> snd (FindSingleAgreementByAgreementId text_codec store1 ''agr-1'') = Inr (Some agr1)
   \<and> length (matching text_codec store_dup ''agr-1'') > 1
   \<and> snd (FindSingleAgreementByAgreementId text_codec store_dup ''agr-1'')
        = Inl (ExpectedOnlyOne ''agr-1'' [agr1, agr1])"
proof -
  have m0: "matching text_codec store1 ''agr-9'' = []" by code_simp
  have m1: "matching text_codec store1 ''agr-1'' = [agr1]" by code_simp
  have m2: "matching text_codec store_dup ''agr-1'' = [agr1, agr1]" by code_simp
  from find_by_id_contract[of text_codec store1 "''agr-9''"]
       find_by_id_contract[of text_codec store1 "''agr-1''"]
       find_by_id_contract[of text_codec store_dup "''agr-1''"] m0 m1 m2
  show ?thesis by simp
qed

text \<open>
  C3. When a value is already stored under a non-empty key of the bucket, \<open>PersistNew\<close> on
  that key (for a non-empty bucket name) and \<open>AgreementAttempt\<close> on that id (for a non-empty
  protocol) fail with \<open>AlreadyContains\<close>, and the database they return is the one they were
  given: the stored value is untouched.
\<close>

theorem duplicate_create_fails:
  assumes "pk \<noteq> []" and "Bucket d bucket = Some b" and "Get b pk = Some existing"
  shows "(bucket \<noteq> [] \<longrightarrow>
            PersistNew marshal d pk bucket r = (d, [], Failed (AlreadyContains bucket pk)))
       \<and> (bucket = AGREEMENTS \<and> proto \<noteq> [] \<longrightarrow>
            AgreementAttempt c now d pk proto = (d, [], Failed (AlreadyContains AGREEMENTS pk)))"
  using assms
  by (auto simp: PersistNew_def AgreementAttempt_def agreement_def Update_def
      CreateBucketIfNotExists_def Bucket_def AGREEMENTS_def)

theorem duplicate_create_fails_witness:
  "Bucket store1 AGREEMENTS = Some [(''agr-1'', agr1_bytes)]
   \<and> Get [(''agr-1'', agr1_bytes)] ''agr-1'' = Some agr1_bytes
   \<and> PersistNew text_marshal store1 ''agr-1'' AGREEMENTS tampered
        = (store1, [], Failed (AlreadyContains AGREEMENTS ''agr-1''))
   \<and> AgreementAttempt text_codec 1600000000 store1 ''agr-1'' ''proto-v2''
        = (store1, [], Failed (AlreadyContains AGREEMENTS ''agr-1''))"
proof -
  have k: "''agr-1'' \<noteq> []" by simp
  have b: "Bucket store1 AGREEMENTS = Some [(''agr-1'', agr1_bytes)]" by code_simp
  have g: "Get [(''agr-1'', agr1_bytes)] ''agr-1'' = Some agr1_bytes"
    by (simp add: Get_def)
  have n: "AGREEMENTS \<noteq> []" by (simp add: AGREEMENTS_def)
  from duplicate_create_fails[OF k b g, where marshal = text_marshal and r = tampered
         and proto = "''proto-v2''" and c = text_codec and now = 1600000000] b g n
  show ?thesis by simp
qed

text \<open>
  C4, as amended. After a successful \<open>AgreementAttempt\<close> for \<open>(i, proto)\<close> at clock reading
  \<open>now\<close>, in a store keyed by id and with a codec that gives back the record the factory
  built, \<open>FindSingleAgreementByAgreementId\<close> on \<open>i\<close> returns that record: id and protocol as
  given (both non-empty), inception time \<open>uint64(now)\<close>, creation time 0, empty proposal and
  URL, checks flag false. \<^verbatim>\<open>encoding/json\<close> gives back every record whose strings are valid
  UTF-8.
\<close>

theorem create_then_find:
  assumes keyed: "keyed_by_id c d"
      and created: "AgreementAttempt c now d i proto = (d', lg, Ok)"
      and rt: "roundtrips c \<lparr> CurrentAgreementId = i, AgreementProtocol = proto,
                              AgreementInceptionTime = word_of_int now, AgreementCreationTime = 0,
                              Proposal = [], DataVerificationURL = [],
                              DisableDataVerificationChecks = False \<rparr>"
  shows "i \<noteq> [] \<and> proto \<noteq> []
       \<and> snd (FindSingleAgreementByAgreementId c d' i)
           = Inr (Some \<lparr> CurrentAgreementId = i, AgreementProtocol = proto,
                         AgreementInceptionTime = word_of_int now, AgreementCreationTime = 0,
                         Proposal = [], DataVerificationURL = [],
                         DisableDataVerificationChecks = False \<rparr>)"
proof -
  let ?a = "\<lparr> CurrentAgreementId = i, AgreementProtocol = proto,
              AgreementInceptionTime = word_of_int now, AgreementCreationTime = 0,
              Proposal = [], DataVerificationURL = [],
              DisableDataVerificationChecks = False \<rparr>"
  from attempt_Ok[OF created] have ne: "i \<noteq> [] \<and> proto \<noteq> []"
    and p: "PersistNew (Marshal c) d i AGREEMENTS ?a = (d', lg, Ok)"
    by simp_all
  from PersistNew_Ok[OF p] obtain v where
    m: "Marshal c ?a = Some v" and b: "Bucket d' AGREEMENTS = Some (kv_put i v (entries d))"
    by (auto simp: entries_def)
  from rt m have "Unmarshal c v = Some ?a" by (simp add: roundtrips_def)
  with matching_store[OF keyed b] have "matching c d' i = [?a]" by simp
  with ne show ?thesis by (simp add: FindSingle_eq)
qed

theorem create_then_find_witness:
  "keyed_by_id text_codec []
   \<and> AgreementAttempt text_codec 1500000000 [] ''agr-1'' ''proto-v1'' = (store1, [], Ok)
   \<and> roundtrips text_codec agr1
   \<and> snd (FindSingleAgreementByAgreementId text_codec store1 ''agr-1'') = Inr (Some agr1)"
proof -
  have k: "keyed_by_id text_codec []" by code_simp
  have c: "AgreementAttempt text_codec 1500000000 [] ''agr-1'' ''proto-v1'' = (store1, [], Ok)"
    by code_simp
  have r: "roundtrips text_codec agr1" by code_simp
  from create_then_find[OF k c] r k c show ?thesis
    by (simp add: agr1_def)
qed

text \<open>
  An id that is not valid UTF-8 is stored under its own bytes as key, but the record
  written carries the coerced id: the creation succeeds, and the lookup by the id that
  was created returns nil and no error.
\<close>

theorem create_then_find_counterexample:
  "AgreementAttempt utf8_codec 1500000000 [] [CHR 0xFF] ''proto-v1'' = (store_ff, [], Ok)
   \<and> snd (FindSingleAgreementByAgreementId utf8_codec store_ff [CHR 0xFF]) = Inr None
   \<and> stored_agreement utf8_codec store_ff [CHR 0xFF]
        = Some \<lparr> CurrentAgreementId = [CHR 0xEF, CHR 0xBF, CHR 0xBD],
                  AgreementProtocol = ''proto-v1'',
                  AgreementInceptionTime = 1500000000, AgreementCreationTime = 0,
                  Proposal = [], DataVerificationURL = [],
                  DisableDataVerificationChecks = False \<rparr>"
  by code_simp

text \<open>
  C5, as amended. After a successful \<open>AgreementMade\<close> on an agreement \<open>a0\<close> that
  \<open>FindSingleAgreementByAgreementId\<close> finds, in a store keyed by id and with a codec that
  gives back the updated record, finding it again gives a record with the proposal, URL
  and checks flag that were passed, creation time \<open>uint64(now)\<close> for the clock reading
  \<open>now\<close>, and id, protocol and inception time of \<open>a0\<close>. The creation time is above 0 for
  every \<^verbatim>\<open>int64\<close> reading but 0, the epoch itself. \<^verbatim>\<open>encoding/json\<close> gives back every
  record whose strings are valid UTF-8.
\<close>

theorem agreement_made_then_find:
  assumes keyed: "keyed_by_id c d"
      and found: "snd (FindSingleAgreementByAgreementId c d i) = Inr (Some a0)"
      and made: "AgreementMade c now d i p url ch = (d', lg, ret, Ok)"
      and rt: "roundtrips c (a0\<lparr> AgreementCreationTime := word_of_int now, Proposal := p,
                                  DataVerificationURL := url,
                                  DisableDataVerificationChecks := ch \<rparr>)"
  shows "\<exists>a1. snd (FindSingleAgreementByAgreementId c d' i) = Inr (Some a1)
           \<and> Proposal a1 = p
           \<and> DataVerificationURL a1 = url
           \<and> DisableDataVerificationChecks a1 = ch
           \<and> AgreementCreationTime a1 = word_of_int now
           \<and> (now \<noteq> 0 \<and> - (2 ^ 63) \<le> now \<and> now < 2 ^ 63 \<longrightarrow> 0 < AgreementCreationTime a1)
           \<and> CurrentAgreementId a1 = CurrentAgreementId a0
           \<and> AgreementProtocol a1 = AgreementProtocol a0
           \<and> AgreementInceptionTime a1 = AgreementInceptionTime a0"
proof -
  let ?u = "a0\<lparr> AgreementCreationTime := word_of_int now, Proposal := p,
               DataVerificationURL := url, DisableDataVerificationChecks := ch \<rparr>"
  have r: "replace_members a0 ?u = ?u" by (simp add: replace_members_def)
  from find_after_update[OF keyed found made_Ok[OF made], of ?u] rt r
  have "snd (FindSingleAgreementByAgreementId c d' i) = Inr (Some ?u)" by simp
  with clock_positive[of now] show ?thesis by simp
qed

theorem agreement_made_then_find_witness:
  "keyed_by_id text_codec store1
   \<and> snd (FindSingleAgreementByAgreementId text_codec store1 ''agr-1'') = Inr (Some agr1)
   \<and> AgreementMade text_codec 1500000100 store1 ''agr-1'' ''P'' ''U'' True
        = (store3, [], Some made_rec, Ok)
   \<and> roundtrips text_codec made_rec
   \<and> (\<exists>a1. snd (FindSingleAgreementByAgreementId text_codec store3 ''agr-1'') = Inr (Some a1)
           \<and> Proposal a1 = ''P''
           \<and> DataVerificationURL a1 = ''U''
           \<and> DisableDataVerificationChecks a1 = True
           \<and> AgreementCreationTime a1 = 1500000100
           \<and> 0 < AgreementCreationTime a1
           \<and> CurrentAgreementId a1 = ''agr-1''
           \<and> AgreementProtocol a1 = ''proto-v1''
           \<and> AgreementInceptionTime a1 = 1500000000)"
proof -
  have k: "keyed_by_id text_codec store1" by code_simp
  have f: "snd (FindSingleAgreementByAgreementId text_codec store1 ''agr-1'') = Inr (Some agr1)"
    by code_simp
  have m: "AgreementMade text_codec 1500000100 store1 ''agr-1'' ''P'' ''U'' True
             = (store3, [], Some made_rec, Ok)"
    by code_simp
  have r: "roundtrips text_codec made_rec" by code_simp
  have e: "agr1\<lparr> AgreementCreationTime := word_of_int 1500000100, Proposal := ''P'',
                  DataVerificationURL := ''U'', DisableDataVerificationChecks := True \<rparr> = made_rec"
    by (simp add: agr1_def made_rec_def)
  from agreement_made_then_find[OF k f m] r e k f m show ?thesis
    by (simp add: agr1_def)
qed

text \<open>
  At clock reading 0 the update succeeds and the record found afterwards has creation
  time 0. With a proposal that is not valid UTF-8 the update succeeds, returns the record
  with the proposal as passed, and the record found afterwards has the coerced proposal.
\<close>

theorem agreement_made_then_find_counterexample:
  "snd (FindSingleAgreementByAgreementId utf8_codec store1u ''agr-1'') = Inr (Some agr1)
   \<and> AgreementMade utf8_codec 0 store1u ''agr-1'' ''P'' ''U'' True
        = (store_epoch, [],
           Some (agr1\<lparr> AgreementCreationTime := 0, Proposal := ''P'',
                        DataVerificationURL := ''U'',
                        DisableDataVerificationChecks := True \<rparr>), Ok)
   \<and> snd (FindSingleAgreementByAgreementId utf8_codec store_epoch ''agr-1'')
        = Inr (Some (agr1\<lparr> AgreementCreationTime := 0, Proposal := ''P'',
                              DataVerificationURL := ''U'',
                              DisableDataVerificationChecks := True \<rparr>))
   \<and> AgreementMade utf8_codec 1500000100 store1u ''agr-1'' [CHR 0xFF] ''U'' True
        = (store_ffprop, [],
           Some (agr1\<lparr> AgreementCreationTime := 1500000100, Proposal := [CHR 0xFF],
                        DataVerificationURL := ''U'',
                        DisableDataVerificationChecks := True \<rparr>), Ok)
   \<and> snd (FindSingleAgreementByAgreementId utf8_codec store_ffprop ''agr-1'')
        = Inr (Some (agr1\<lparr> AgreementCreationTime := 1500000100,
                              Proposal := [CHR 0xEF, CHR 0xBF, CHR 0xBD],
                              DataVerificationURL := ''U'',
                              DisableDataVerificationChecks := True \<rparr>))"
  by code_simp

text \<open>
  C6. \<open>FindAgreements\<close> returns the records that decode and that every filter of the list
  accepts, so a record in the result is accepted by each filter (a conjunction, not a
  disjunction); with the filters \<open>IdAFilter ''a''\<close> and the filter that rejects everything,
  the result is empty whatever the store holds.
\<close>

theorem filters_are_conjoined:
  "snd (FindAgreements c d filters)
     = Inr (filter (\<lambda>a. list_all (\<lambda>f. f a) filters) (decodable c d))
   \<and> (\<forall>ms a. snd (FindAgreements c d filters) = Inr ms \<and> a \<in> set ms
         \<longrightarrow> (\<forall>f \<in> set filters. f a))
   \<and> snd (FindAgreements c d [IdAFilter ''a'', (\<lambda>a. False)]) = Inr []"
  by (auto simp: FindAgreements_eq list_all_iff)

theorem filters_are_conjoined_witness:
  "snd (FindAgreements text_codec store_a [IdAFilter ''a'']) = Inr [agr_a]
   \<and> agr_a \<in> set [agr_a]
   \<and> IdAFilter ''a'' agr_a
   \<and> snd (FindAgreements text_codec store_a [IdAFilter ''a'', (\<lambda>a. False)]) = Inr []"
proof -
  have r: "snd (FindAgreements text_codec store_a [IdAFilter ''a'']) = Inr [agr_a]"
    by code_simp
  have m: "agr_a \<in> set [agr_a]" by simp
  note t = filters_are_conjoined[of text_codec store_a "[IdAFilter ''a'']"]
  from t have "\<And>ms a. snd (FindAgreements text_codec store_a [IdAFilter ''a'']) = Inr ms
                 \<Longrightarrow> a \<in> set ms \<Longrightarrow> \<forall>f \<in> set [IdAFilter ''a'']. f a"
    by blast
  from this[OF r m] have a: "\<forall>f \<in> set [IdAFilter ''a'']. f agr_a" .
  from t have "snd (FindAgreements text_codec store_a [IdAFilter ''a'', (\<lambda>a. False)]) = Inr []"
    by blast
  with r m a show ?thesis by simp
qed

text \<open>
  C7. For a non-empty key with nothing stored under it in an existing agreements bucket,
  \<open>DeleteAgreement\<close> writes the warning \<open>WarnDeleteMissing\<close>, returns nil and leaves the
  database as it was, and so does a second call on the result. An empty key fails with
  \<open>MissingPk\<close>; a non-empty key on a database without the bucket fails with
  \<open>UnknownBucket\<close>.
\<close>

theorem delete_missing_is_success:
  "(pk \<noteq> [] \<and> Bucket d AGREEMENTS = Some b \<and> Get b pk = None \<longrightarrow>
      DeleteAgreement c d pk = (d, [WarnDeleteMissing pk], Ok)
      \<and> DeleteAgreement c (fst (DeleteAgreement c d pk)) pk = (d, [WarnDeleteMissing pk], Ok))
   \<and> DeleteAgreement c d [] = (d, [], Failed MissingPk)
   \<and> (pk \<noteq> [] \<and> Bucket d AGREEMENTS = None \<longrightarrow>
        DeleteAgreement c d pk = (d, [], Failed (UnknownBucket AGREEMENTS)))"
  by (simp add: DeleteAgreement_def Update_def)

theorem delete_missing_is_success_witness:
  "Bucket store1 AGREEMENTS = Some [(''agr-1'', agr1_bytes)]
   \<and> Get [(''agr-1'', agr1_bytes)] ''agr-9'' = None
   \<and> DeleteAgreement text_codec store1 ''agr-9'' = (store1, [WarnDeleteMissing ''agr-9''], Ok)
   \<and> DeleteAgreement text_codec (fst (DeleteAgreement text_codec store1 ''agr-9'')) ''agr-9''
        = (store1, [WarnDeleteMissing ''agr-9''], Ok)
   \<and> DeleteAgreement text_codec store1 [] = (store1, [], Failed MissingPk)
   \<and> Bucket [] AGREEMENTS = None
   \<and> DeleteAgreement text_codec [] ''agr-9'' = ([], [], Failed (UnknownBucket AGREEMENTS))"
proof -
  have b: "Bucket store1 AGREEMENTS = Some [(''agr-1'', agr1_bytes)]" by code_simp
  have g: "Get [(''agr-1'', agr1_bytes)] ''agr-9'' = None" by (simp add: Get_def)
  have n: "Bucket [] AGREEMENTS = None" by (simp add: Bucket_def)
  from delete_missing_is_success[of "''agr-9''" store1 "[(''agr-1'', agr1_bytes)]" text_codec]
       delete_missing_is_success[of "''agr-9''" "[]" "[]" text_codec] b g n
  show ?thesis by simp
qed

text \<open>
  C8. \<open>FindAgreements\<close> never returns an error: its result is the list of the records that
  decode and pass the filters, and its log has one \<open>ErrDeserializeRecord\<close> line for each
  value that does not decode. Without the agreements bucket the result is the empty list
  and nothing is logged. A value that does not decode is logged and left out, and the
  entries before and after it are scanned as if it were not there.
\<close>

theorem scan_never_fails:
  "FindAgreements c d filters
     = (map ErrDeserializeRecord (undecodable c d),
        Inr (filter (\<lambda>a. list_all (\<lambda>f. f a) filters) (decodable c d)))
   \<and> (Bucket d AGREEMENTS = None \<longrightarrow> FindAgreements c d filters = ([], Inr []))
   \<and> (\<forall>xs k v ys. entries d = xs @ (k, v) # ys \<and> Unmarshal c v = None \<longrightarrow>
         ErrDeserializeRecord v \<in> set (fst (FindAgreements c d filters))
         \<and> snd (FindAgreements c d filters)
             = Inr (filter (\<lambda>a. list_all (\<lambda>f. f a) filters)
                     (List.map_filter (\<lambda>kv. Unmarshal c (snd kv)) (xs @ ys))))"
proof -
  have "List.map_filter g (xs @ x # ys) = List.map_filter g (xs @ ys)" if "g x = None"
    for g :: "bytes \<times> bytes \<Rightarrow> Agreement option" and xs x ys
    using that by (induction xs) (auto split: option.splits)
  then show ?thesis
    by (auto simp: FindAgreements_eq decodable_def undecodable_def entries_def)
qed

theorem scan_never_fails_witness:
  "entries store_junk1 = [] @ (''a-junk'', ''not json'') # [(''agr-1'', agr1_bytes)]
   \<and> Unmarshal text_codec ''not json'' = None
   \<and> FindAgreements text_codec store_junk1 [] = ([ErrDeserializeRecord ''not json''], Inr [agr1])
   \<and> Bucket [] AGREEMENTS = None
   \<and> FindAgreements text_codec [] [] = ([], Inr [])"
proof -
  have e: "entries store_junk1 = [] @ (''a-junk'', ''not json'') # [(''agr-1'', agr1_bytes)]"
    by code_simp
  have u: "Unmarshal text_codec ''not json'' = None" by code_simp
  have n: "Bucket [] AGREEMENTS = None" by (simp add: Bucket_def)
  have x: "undecodable text_codec store_junk1 = [''not json'']" by code_simp
  have y: "decodable text_codec store_junk1 = [agr1]" by code_simp
  have z: "undecodable text_codec [] = []" "decodable text_codec [] = []" by code_simp+
  from scan_never_fails[of text_codec store_junk1 "[]"] scan_never_fails[of text_codec "[]" "[]"]
       e u n x y z
  show ?thesis by simp
qed

text \<open>
  C9. \<open>singleAgreementUpdate\<close> fails with \<open>UnableToLocate\<close> when
  \<open>FindSingleAgreementByAgreementId\<close> returns nil, and with the error of the lookup when that
  fails (\<open>ExpectedOnlyOne\<close> is its only one); otherwise it returns what
  \<open>persistUpdatedAgreement\<close> returns. That function, reading the key again in its own
  transaction, fails with \<open>NoAgreementToUpdate\<close> when nothing is stored under the key and
  with \<open>FailedUnmarshal\<close> when the stored bytes do not decode; the database is unchanged in
  both cases.
\<close>

theorem update_error_paths:
  "(snd (FindSingleAgreementByAgreementId c d i) = Inr None \<longrightarrow>
      singleAgreementUpdate c d i fn
        = (d, fst (FindSingleAgreementByAgreementId c d i), None, Failed (UnableToLocate i)))
   \<and> (\<forall>e. snd (FindSingleAgreementByAgreementId c d i) = Inl e \<longrightarrow>
        singleAgreementUpdate c d i fn
          = (d, fst (FindSingleAgreementByAgreementId c d i), None, Failed e))
   \<and> (\<forall>a. snd (FindSingleAgreementByAgreementId c d i) = Inr (Some a) \<longrightarrow>
        singleAgreementUpdate c d i fn
          = (case persistUpdatedAgreement c d i (fn a) of
               (d', lg', r) \<Rightarrow> (d', fst (FindSingleAgreementByAgreementId c d i) @ lg', fn a, r)))
   \<and> (raw_value d i = None \<longrightarrow>
        persistUpdatedAgreement c d i upd = (d, [], Failed (NoAgreementToUpdate i)))
   \<and> (\<forall>v. raw_value d i = Some v \<and> Unmarshal c v = None \<longrightarrow>
        persistUpdatedAgreement c d i upd = (d, [], Failed (FailedUnmarshal v)))"
proof -
  have find: "singleAgreementUpdate c d i fn =
     (case snd (FindSingleAgreementByAgreementId c d i) of
        Inl err \<Rightarrow> (d, fst (FindSingleAgreementByAgreementId c d i), None, Failed err)
      | Inr None \<Rightarrow> (d, fst (FindSingleAgreementByAgreementId c d i), None, Failed (UnableToLocate i))
      | Inr (Some a) \<Rightarrow>
          (case persistUpdatedAgreement c d i (fn a) of
             (d', lg', r) \<Rightarrow> (d', fst (FindSingleAgreementByAgreementId c d i) @ lg', fn a, r)))"
    by (simp add: singleAgreementUpdate_def Let_def split: prod.splits sum.splits option.splits)
  have gone: "persistUpdatedAgreement c d i upd = (d, [], Failed (NoAgreementToUpdate i))"
    if "raw_value d i = None"
    using that
    by (auto simp: persistUpdatedAgreement_def Update_def CreateBucketIfNotExists_def Get_def
        raw_value_def Bucket_def AGREEMENTS_def split: option.splits)
  have corrupt: "persistUpdatedAgreement c d i upd = (d, [], Failed (FailedUnmarshal v))"
    if "raw_value d i = Some v" "Unmarshal c v = None" for v
    using that
    by (auto simp: persistUpdatedAgreement_def Update_def CreateBucketIfNotExists_def Get_def
        raw_value_def Bucket_def AGREEMENTS_def split: option.splits)
  from find gone corrupt show ?thesis by simp
qed

theorem update_error_paths_witness:
  "snd (FindSingleAgreementByAgreementId text_codec store1 ''agr-9'') = Inr None
   \<and> singleAgreementUpdate text_codec store1 ''agr-9'' tamper
        = (store1, [], None, Failed (UnableToLocate ''agr-9''))
   \<and> snd (FindSingleAgreementByAgreementId text_codec store_dup ''agr-1'')
        = Inl (ExpectedOnlyOne ''agr-1'' [agr1, agr1])
   \<and> singleAgreementUpdate text_codec store_dup ''agr-1'' tamper
        = (store_dup, [], None, Failed (ExpectedOnlyOne ''agr-1'' [agr1, agr1]))
   \<and> snd (FindSingleAgreementByAgreementId text_codec store_k1 ''agr-1'') = Inr (Some agr1)
   \<and> raw_value store_k1 ''agr-1'' = None
   \<and> singleAgreementUpdate text_codec store_k1 ''agr-1'' tamper
        = (store_k1, [], Some tampered, Failed (NoAgreementToUpdate ''agr-1''))
   \<and> raw_value store_bad ''agr-1'' = Some ''not json''
   \<and> Unmarshal text_codec ''not json'' = None
   \<and> persistUpdatedAgreement text_codec store_bad ''agr-1'' (Some tampered)
        = (store_bad, [], Failed (FailedUnmarshal ''not json''))"
proof -
  have f0: "FindSingleAgreementByAgreementId text_codec store1 ''agr-9'' = ([], Inr None)"
    by code_simp
  have f1: "FindSingleAgreementByAgreementId text_codec store_dup ''agr-1''
              = ([], Inl (ExpectedOnlyOne ''agr-1'' [agr1, agr1]))"
    by code_simp
  have f2: "FindSingleAgreementByAgreementId text_codec store_k1 ''agr-1'' = ([], Inr (Some agr1))"
    by code_simp
  have r2: "raw_value store_k1 ''agr-1'' = None" by code_simp
  have r3: "raw_value store_bad ''agr-1'' = Some ''not json''" by code_simp
  have u: "Unmarshal text_codec ''not json'' = None" by code_simp
  from update_error_paths[of text_codec store1 "''agr-9''" tamper]
       update_error_paths[of text_codec store_dup "''agr-1''" tamper]
       update_error_paths[of text_codec store_k1 "''agr-1''" tamper "Some tampered"]
       update_error_paths[of text_codec store_bad "''agr-1''" tamper "Some tampered"]
       f0 f1 f2 r2 r3 u
  show ?thesis by (simp add: tamper_def)
qed

text \<open>
  C10. The Agreement a successful \<open>singleAgreementUpdate\<close> returns is \<open>fn\<close> applied to the
  record of the first read, not the record \<open>persistUpdatedAgreement\<close> wrote: the stored
  record keeps id, protocol and inception time of the record read, so where \<open>fn\<close> changed
  one of them the returned value differs from the stored record in that field.
  \<open>AgreementMade\<close> returns the record read with the four fields it sets.
\<close>

theorem returned_value_is_transform_output:
  assumes keyed: "keyed_by_id c d"
      and found: "snd (FindSingleAgreementByAgreementId c d i) = Inr (Some a)"
      and upd: "singleAgreementUpdate c d i fn = (d', lg, ret, Ok)"
      and fn: "fn a = Some u"
      and rt: "roundtrips c (replace_members a u)"
  shows "ret = Some u
       \<and> (\<exists>s. stored_agreement c d' i = Some s
              \<and> CurrentAgreementId s = CurrentAgreementId a
              \<and> AgreementProtocol s = AgreementProtocol a
              \<and> AgreementInceptionTime s = AgreementInceptionTime a
              \<and> (CurrentAgreementId u \<noteq> CurrentAgreementId a
                    \<longrightarrow> CurrentAgreementId u \<noteq> CurrentAgreementId s)
              \<and> (AgreementProtocol u \<noteq> AgreementProtocol a
                    \<longrightarrow> AgreementProtocol u \<noteq> AgreementProtocol s)
              \<and> (AgreementInceptionTime u \<noteq> AgreementInceptionTime a
                    \<longrightarrow> AgreementInceptionTime u \<noteq> AgreementInceptionTime s))
       \<and> (\<forall>now p url ch d2 lg2 ret2.
             AgreementMade c now d i p url ch = (d2, lg2, ret2, Ok) \<longrightarrow>
             ret2 = Some (a\<lparr> AgreementCreationTime := word_of_int now, Proposal := p,
                              DataVerificationURL := url,
                              DisableDataVerificationChecks := ch \<rparr>))"
proof -
  from find_after_update[OF keyed found upd fn rt]
  have ret: "ret = Some u" and st: "stored_agreement c d' i = Some (replace_members a u)"
    by simp_all
  have made: "ret2 = Some (a\<lparr> AgreementCreationTime := word_of_int now, Proposal := p,
                               DataVerificationURL := url,
                               DisableDataVerificationChecks := ch \<rparr>)"
    if "AgreementMade c now d i p url ch = (d2, lg2, ret2, Ok)" for now p url ch d2 lg2 ret2
    using single_Ok[OF made_Ok[OF that]] found by auto
  from ret st made show ?thesis
    by (simp add: replace_members_def)
qed

theorem returned_value_is_transform_output_witness:
  "keyed_by_id text_codec store1
   \<and> snd (FindSingleAgreementByAgreementId text_codec store1 ''agr-1'') = Inr (Some agr1)
   \<and> singleAgreementUpdate text_codec store1 ''agr-1'' tamper = (store2, [], Some tampered, Ok)
   \<and> tamper agr1 = Some tampered
   \<and> roundtrips text_codec (replace_members agr1 tampered)
   \<and> CurrentAgreementId tampered = ''evil''
   \<and> (\<exists>s. stored_agreement text_codec store2 ''agr-1'' = Some s
          \<and> CurrentAgreementId s = ''agr-1''
          \<and> AgreementProtocol s = ''proto-v1''
          \<and> AgreementInceptionTime s = 1500000000
          \<and> CurrentAgreementId tampered \<noteq> CurrentAgreementId s)
   \<and> AgreementMade text_codec 1500000100 store1 ''agr-1'' ''P'' ''U'' True
        = (store3, [], Some made_rec, Ok)"
proof -
  have k: "keyed_by_id text_codec store1" by code_simp
  have f: "snd (FindSingleAgreementByAgreementId text_codec store1 ''agr-1'') = Inr (Some agr1)"
    by code_simp
  have upd: "singleAgreementUpdate text_codec store1 ''agr-1'' tamper = (store2, [], Some tampered, Ok)"
    by code_simp
  have t: "tamper agr1 = Some tampered" by (simp add: tamper_def)
  have rt: "roundtrips text_codec (replace_members agr1 tampered)" by code_simp
  have m: "AgreementMade text_codec 1500000100 store1 ''agr-1'' ''P'' ''U'' True
             = (store3, [], Some made_rec, Ok)"
    by code_simp
  from returned_value_is_transform_output[OF k f upd t rt]
  have "\<exists>s. stored_agreement text_codec store2 ''agr-1'' = Some s
          \<and> CurrentAgreementId s = ''agr-1''
          \<and> AgreementProtocol s = ''proto-v1''
          \<and> AgreementInceptionTime s = 1500000000
          \<and> CurrentAgreementId tampered \<noteq> CurrentAgreementId s"
    by (auto simp: agr1_def tampered_def)
  moreover have "CurrentAgreementId tampered = ''evil''" by (simp add: tampered_def)
  ultimately show ?thesis using k f upd t rt m by blast
qed

end
